theory Spec2Isabelle
  imports Complex_Main "HOL-Library.Multiset"
begin

section \<open>Python values and the operations the adapter applies to them\<close>

text \<open>
  The adapter (\<^verbatim>\<open>bottery/platform/telegram.py\<close>) works on decoded JSON: the replies of
  the Bot API and the updates it carries. A decoded JSON document is \<^verbatim>\<open>None\<close>, a
  \<^verbatim>\<open>bool\<close>, an \<^verbatim>\<open>int\<close> (unbounded), a \<^verbatim>\<open>float\<close>, a \<^verbatim>\<open>str\<close>, a \<^verbatim>\<open>list\<close> or a \<^verbatim>\<open>dict\<close>
  with string keys. A dict is an association list read with \<open>map_of\<close> (the first binding
  of a key is the one a lookup sees). A float is carried as a real number: only its
  truth value matters to the code modelled here.
\<close>

datatype json =
    JNull
  | JBool bool
  | JInt int
  | JFloat real
  | JStr string
  | JArr "json list"
  | JObj "(string \<times> json) list"

datatype error =
    AttributeError
  | KeyError
  | TypeError
  | IndexError
  | ImproperlyConfigured string
  | RemoteFailure

text \<open>Python's truth value of an object (\<^verbatim>\<open>if x:\<close>, \<^verbatim>\<open>not x\<close>).\<close>

fun truthy :: "json \<Rightarrow> bool" where
  "truthy JNull = False"
| "truthy (JBool b) = b"
| "truthy (JInt n) = (n \<noteq> 0)"
| "truthy (JFloat x) = (x \<noteq> 0)"
| "truthy (JStr s) = (s \<noteq> [])"
| "truthy (JArr xs) = (xs \<noteq> [])"
| "truthy (JObj kvs) = (kvs \<noteq> [])"

text \<open>\<^verbatim>\<open>x.get(k)\<close>: only a dict has the method; a missing key gives \<^verbatim>\<open>None\<close>.\<close>

fun py_get :: "json \<Rightarrow> string \<Rightarrow> error + json" where
  "py_get (JObj kvs) k = (case map_of kvs k of None \<Rightarrow> Inr JNull | Some v \<Rightarrow> Inr v)"
| "py_get _ k = Inl AttributeError"

text \<open>\<^verbatim>\<open>x.get(k, d)\<close>: the same with a default.\<close>

fun py_get_default :: "json \<Rightarrow> string \<Rightarrow> json \<Rightarrow> error + json" where
  "py_get_default (JObj kvs) k d = (case map_of kvs k of None \<Rightarrow> Inr d | Some v \<Rightarrow> Inr v)"
| "py_get_default _ k d = Inl AttributeError"

text \<open>
  \<^verbatim>\<open>x[k]\<close> with a string key: a dict raises \<^verbatim>\<open>KeyError\<close> on a missing key, every other
  value raises \<^verbatim>\<open>TypeError\<close> (not subscriptable, or indices must be integers).
\<close>

fun py_item :: "json \<Rightarrow> string \<Rightarrow> error + json" where
  "py_item (JObj kvs) k = (case map_of kvs k of None \<Rightarrow> Inl KeyError | Some v \<Rightarrow> Inr v)"
| "py_item _ k = Inl TypeError"

section \<open>Operation names: \<^verbatim>\<open>mixed_case\<close>\<close>

text \<open>
  \<^verbatim>\<open>
  def mixed_case(string):
      words = string.split('_')
      return words[0].lower() + ''.join([s.title() for s in words[1:]])
  \<close>
  The string methods are modelled on ASCII, which is what operation names are made of:
  a character outside \<^verbatim>\<open>A-Z\<close> and \<^verbatim>\<open>a-z\<close> is uncased and left as it is.
\<close>

definition is_upper :: "char \<Rightarrow> bool" where
  "is_upper c = (65 \<le> (of_char c :: nat) \<and> (of_char c :: nat) \<le> 90)"

definition is_lower :: "char \<Rightarrow> bool" where
  "is_lower c = (97 \<le> (of_char c :: nat) \<and> (of_char c :: nat) \<le> 122)"

definition to_lower :: "char \<Rightarrow> char" where
  "to_lower c = (if is_upper c then char_of ((of_char c :: nat) + 32) else c)"

definition to_upper :: "char \<Rightarrow> char" where
  "to_upper c = (if is_lower c then char_of ((of_char c :: nat) - 32) else c)"

text \<open>\<^verbatim>\<open>s.split(sep)\<close> for a one-character separator: never empty, \<^verbatim>\<open>''.split('_') == ['']\<close>.\<close>

fun split_on :: "char \<Rightarrow> string \<Rightarrow> string list" where
  "split_on sep [] = [[]]"
| "split_on sep (c # cs) =
     (if c = sep then [] # split_on sep cs
      else (case split_on sep cs of
              [] \<Rightarrow> [[c]]
            | w # ws \<Rightarrow> (c # w) # ws))"

text \<open>\<^verbatim>\<open>s.lower()\<close>.\<close>

definition lower :: "string \<Rightarrow> string" where
  "lower s = map to_lower s"

text \<open>
  \<^verbatim>\<open>s.title()\<close>: a cased character is upper-cased when the character before it is
  uncased (or there is none) and lower-cased otherwise; uncased characters are kept.
\<close>

fun title_from :: "bool \<Rightarrow> string \<Rightarrow> string" where
  "title_from prev_cased [] = []"
| "title_from prev_cased (c # cs) =
     (if is_upper c \<or> is_lower c
      then (if prev_cased then to_lower c else to_upper c) # title_from True cs
      else c # title_from False cs)"

definition title :: "string \<Rightarrow> string" where
  "title s = title_from False s"

definition mixed_case :: "string \<Rightarrow> string" where
  "mixed_case string =
     (let words = split_on CHR ''_'' string
      in lower (hd words) @ concat (map title (tl words)))"

section \<open>\<^verbatim>\<open>TelegramAPI\<close>: the proxy of the remote operations\<close>

text \<open>
  The session is the HTTP client, an external collaborator: \<^verbatim>\<open>session.post(url, json=kwargs)\<close>
  is recorded as the request it sends. The proxy itself holds the token.
\<close>

record telegram_api =
  token :: string

type_synonym kwargs = "(string \<times> json) list"

datatype http_call = Post string kwargs

definition api_url :: string where
  "api_url = ''https://api.telegram.org''"

definition methods :: "string list" where
  "methods = [''delete_webhook'', ''send_message'', ''set_webhook'', ''get_updates'']"

definition make_url :: "telegram_api \<Rightarrow> string \<Rightarrow> string" where
  "make_url api method_name =
     (let method_name = mixed_case method_name
      in api_url @ ''/bot'' @ token api @ ''/'' @ method_name)"

text \<open>
  \<^verbatim>\<open>
  def __getattr__(self, attr):
      if attr not in self.methods:
          raise AttributeError()
      url = self.make_url(attr)
      return lambda **kwargs: self.session.post(url, json=kwargs)
  \<close>
  The result is the error, or the function from keyword arguments to the request posted.
\<close>

definition getattr_api :: "telegram_api \<Rightarrow> string \<Rightarrow> error + (kwargs \<Rightarrow> http_call)" where
  "getattr_api api attr =
     (if attr \<notin> set methods then Inl AttributeError
      else (let url = make_url api attr in Inr (\<lambda>kwargs. Post url kwargs)))"

text \<open>
  Attribute access on the proxy, \<^verbatim>\<open>api.<name>\<close>. Python calls \<^verbatim>\<open>__getattr__\<close> only when the
  normal lookup has found nothing. The normal lookup finds
  \<^item> the attributes of the instance, which \<^verbatim>\<open>__init__\<close> sets: \<^verbatim>\<open>token\<close> and \<^verbatim>\<open>session\<close>;
  \<^item> the attributes of the class: \<^verbatim>\<open>api_url\<close>, \<^verbatim>\<open>methods\<close>, \<^verbatim>\<open>__init__\<close>, \<^verbatim>\<open>make_url\<close> and
    \<^verbatim>\<open>__getattr__\<close>;
  \<^item> the attributes every object has from the interpreter (\<^verbatim>\<open>__class__\<close>, \<^verbatim>\<open>__dict__\<close>,
    \<^verbatim>\<open>__doc__\<close>, ...). They are not in the source and depend on the version of Python, so
    their names are given, as the list \<open>object_attrs\<close>; each of them starts and ends with
    two underscores.
  An attribute found by the normal lookup is returned as it is, under its name;
  \<^verbatim>\<open>__getattr__\<close> is not consulted for it.
\<close>

definition instance_attrs :: "string list" where
  "instance_attrs = [''token'', ''session'']"

definition class_attrs :: "string list" where
  "class_attrs = [''api_url'', ''methods'', ''__init__'', ''make_url'', ''__getattr__'']"

definition is_dunder :: "string \<Rightarrow> bool" where
  "is_dunder s = (4 \<le> length s \<and> take 2 s = ''__'' \<and> drop (length s - 2) s = ''__'')"

definition normal_lookup :: "string list \<Rightarrow> string \<Rightarrow> bool" where
  "normal_lookup object_attrs attr =
     (attr \<in> set instance_attrs \<or> attr \<in> set class_attrs
      \<or> (is_dunder attr \<and> attr \<in> set object_attrs))"

datatype attribute =
    Existing string
  | Operation "kwargs \<Rightarrow> http_call"

definition getattribute :: "string list \<Rightarrow> telegram_api \<Rightarrow> string \<Rightarrow> error + attribute" where
  "getattribute object_attrs api attr =
     (if normal_lookup object_attrs attr then Inr (Existing attr)
      else (case getattr_api api attr of
              Inl e \<Rightarrow> Inl e
            | Inr f \<Rightarrow> Inr (Operation f)))"

text \<open>
  \<^verbatim>\<open>self.api.<name>(**kwargs)\<close> for a name that the normal lookup does not find, as the
  names of the operations and every unknown name are: the call of \<^verbatim>\<open>__getattr__\<close>, then the
  call of the function it returned. The list is the requests that reached the session.
  The engine asks for \<^verbatim>\<open>delete_webhook\<close>, \<^verbatim>\<open>set_webhook\<close>, \<^verbatim>\<open>get_updates\<close> and
  \<^verbatim>\<open>send_message\<close> only. (The call of an attribute that the normal lookup finds, such as
  \<^verbatim>\<open>api.make_url(...)\<close> or \<^verbatim>\<open>api.token(...)\<close>, is not a request through the proxy and is not
  modelled.)
\<close>

definition api_request :: "telegram_api \<Rightarrow> string \<Rightarrow> kwargs \<Rightarrow> http_call list \<times> (error + unit)" where
  "api_request api name kw =
     (case getattr_api api name of
        Inl e \<Rightarrow> ([], Inl e)
      | Inr f \<Rightarrow> ([f kw], Inr ()))"

text \<open>Sequencing of steps that may raise: the first error ends the computation.\<close>

definition bindE :: "error + 'a \<Rightarrow> ('a \<Rightarrow> error + 'b) \<Rightarrow> error + 'b" where
  "bindE m f = (case m of Inl e \<Rightarrow> Inl e | Inr x \<Rightarrow> f x)"

section \<open>\<^verbatim>\<open>TelegramUser\<close> and the canonical message\<close>

text \<open>
  \<^verbatim>\<open>
  class TelegramUser(User):
      def __init__(self, sender):
          self.id = sender['id']
          self.first_name = sender['first_name']
          self.last_name = sender.get('last_name')
          self.username = sender.get('username')
          self.language = sender.get('language_code')
  \<close>
  The fields hold whatever the payload holds, so they are JSON values; \<^verbatim>\<open>None\<close> is \<open>JNull\<close>.
\<close>

record telegram_user =
  user_id :: json
  first_name :: json
  last_name :: json
  username :: json
  language :: json

definition telegram_user_init :: "json \<Rightarrow> error + telegram_user" where
  "telegram_user_init sender =
     bindE (py_item sender ''id'') (\<lambda>i.
     bindE (py_item sender ''first_name'') (\<lambda>fn.
     bindE (py_get sender ''last_name'') (\<lambda>ln.
     bindE (py_get sender ''username'') (\<lambda>un.
     bindE (py_get sender ''language_code'') (\<lambda>lc.
     Inr \<lparr>user_id = i, first_name = fn, last_name = ln, username = un, language = lc\<rparr>)))))"

text \<open>
  Modelled from the spec: the class \<^verbatim>\<open>Message\<close> of \<^verbatim>\<open>bottery.message\<close>, which is not among
  the source files. The spec gives the canonical message as the fields id, platform tag,
  text, user, timestamp and raw payload; the constructor stores its keyword arguments.
\<close>

record message =
  msg_id :: json
  msg_platform :: string
  msg_text :: json
  msg_user :: telegram_user
  msg_timestamp :: json
  msg_raw :: json

definition platform :: string where
  "platform = ''telegram''"

text \<open>
  \<^verbatim>\<open>
  def build_message(self, data):
      message_data = data.get('message')
      if not message_data:
          return None
      return Message(
          id=message_data['message_id'],
          platform=self.platform,
          text=message_data['text'],
          user=TelegramUser(message_data['from']),
          timestamp=message_data['date'],
          raw=data,
      )
  \<close>
  The keyword arguments are evaluated in the order they are written.
\<close>

definition build_message :: "json \<Rightarrow> error + message option" where
  "build_message data =
     bindE (py_get data ''message'') (\<lambda>message_data.
       if \<not> truthy message_data then Inr None
       else
         bindE (py_item message_data ''message_id'') (\<lambda>i.
         bindE (py_item message_data ''text'') (\<lambda>t.
         bindE (py_item message_data ''from'') (\<lambda>sender.
         bindE (telegram_user_init sender) (\<lambda>u.
         bindE (py_item message_data ''date'') (\<lambda>d.
         Inr (Some \<lparr>msg_id = i, msg_platform = platform, msg_text = t,
                     msg_user = u, msg_timestamp = d, msg_raw = data\<rparr>)))))))"

section \<open>Effects: what an operation of the engine does besides returning\<close>

text \<open>
  The engine's coroutines post requests through the proxy and write log lines. Each is
  modelled as the list of the events it causes, in order, with its result: the value
  returned, or the exception that ended it. A log line of \<^verbatim>\<open>message_handler\<close> is kept as
  the engine name and the user it prints.
\<close>

datatype event =
    Call http_call
  | LogDebug string
  | LogInfo string telegram_user

type_synonym 'a outcome = "event list \<times> (error + 'a)"

definition ret :: "'a \<Rightarrow> 'a outcome" where
  "ret x = ([], Inr x)"

definition raise :: "error \<Rightarrow> 'a outcome" where
  "raise e = ([], Inl e)"

definition emit :: "event \<Rightarrow> unit outcome" where
  "emit ev = ([ev], Inr ())"

definition lift :: "error + 'a \<Rightarrow> 'a outcome" where
  "lift r = ([], r)"

definition bindO :: "'a outcome \<Rightarrow> ('a \<Rightarrow> 'b outcome) \<Rightarrow> 'b outcome" where
  "bindO m f =
     (case m of
        (t, Inl e) \<Rightarrow> (t, Inl e)
      | (t, Inr x) \<Rightarrow> (case f x of (t', r) \<Rightarrow> (t @ t', r)))"

section \<open>\<^verbatim>\<open>TelegramEngine\<close>\<close>

text \<open>
  The base class \<^verbatim>\<open>platform.BaseEngine\<close>, the settings object, the view discovery and the
  HTTP session are not among the source files; what the engine reads of them is taken as
  given:
  \<^item> the attributes the base class sets from the platform's options: the token, the
    engine's name and, when the options name one, the mode;
  \<^item> \<^verbatim>\<open>getattr(settings, 'HOSTNAME')\<close>, which yields a value or raises;
  \<^item> \<^verbatim>\<open>discover_view(message)\<close>, a view or nothing, and \<^verbatim>\<open>self.get_response(view, message)\<close>,
    the response or the exception of the view;
  \<^item> whether awaiting a posted \<^verbatim>\<open>send_message\<close> request returns or raises.
\<close>

datatype task = Polling

datatype handler = Webhook

record engine =
  api :: telegram_api
  engine_name :: string
  mode :: string
  tasks :: "task list"
  routes :: "(string \<times> handler) list"


record settings =
  HOSTNAME :: "error + json"

record 'v resolver =
  discover_view :: "message \<Rightarrow> 'v option"
  get_response :: "'v \<Rightarrow> message \<Rightarrow> error + json"
  post_outcome :: "http_call \<Rightarrow> error + unit"


text \<open>\<^verbatim>\<open>await self.api.<name>(**kwargs)\<close> inside the engine: the requests become events.\<close>

definition call_api :: "engine \<Rightarrow> string \<Rightarrow> kwargs \<Rightarrow> unit outcome" where
  "call_api eng name kw = (case api_request (api eng) name kw of (cs, r) \<Rightarrow> (map Call cs, r))"


text \<open>
  \<^verbatim>\<open>
  async def configure_webhook(self):
      hostname = getattr(settings, 'HOSTNAME')
      if not hostname:
          raise ImproperlyConfigured('Missing HOSTNAME setting')
      response = await self.api.set_webhook(url=hostname)
      response = await response.json()
      if response['ok']:
          logger.debug('[%s] Webhook mode set', self.engine_name)
      self.server.router.add_post('/', self.webhook)
  \<close>
\<close>

definition configure_webhook :: "settings \<Rightarrow> engine \<Rightarrow> error + json \<Rightarrow> engine outcome" where
  "configure_webhook st eng reply =
     bindO (lift (HOSTNAME st)) (\<lambda>hostname.
     if \<not> truthy hostname then raise (ImproperlyConfigured ''Missing HOSTNAME setting'')
     else
       bindO (call_api eng ''set_webhook'' [(''url'', hostname)]) (\<lambda>_.
       bindO (lift reply) (\<lambda>response.
       bindO (lift (py_item response ''ok'')) (\<lambda>ok.
       bindO (if truthy ok then emit (LogDebug (''['' @ engine_name eng @ ''] Webhook mode set''))
              else ret ()) (\<lambda>_.
       ret (eng\<lparr>routes := routes eng @ [(''/'', Webhook)]\<rparr>))))))"




text \<open>
  \<^verbatim>\<open>
  async def message_handler(self, data):
      message = self.build_message(data)
      logger.info('[%s] Message from %s' % (self.engine_name, message.user))
      view = discover_view(message)
      if not view:
          return
      response = await self.get_response(view, message)
      await self.api.send_message(chat_id=message.user.id, text=response,
                                  parser_mode='markdown')
  \<close>
  \<^verbatim>\<open>message.user\<close> is evaluated before the logger is called: on \<^verbatim>\<open>None\<close> it raises
  \<^verbatim>\<open>AttributeError\<close> and nothing is logged.
\<close>

definition message_handler :: "'v resolver \<Rightarrow> engine \<Rightarrow> json \<Rightarrow> unit outcome" where
  "message_handler env eng data =
     bindO (lift (build_message data)) (\<lambda>message.
     case message of
       None \<Rightarrow> raise AttributeError
     | Some m \<Rightarrow>
         bindO (emit (LogInfo (engine_name eng) (msg_user m))) (\<lambda>_.
         case discover_view env m of
           None \<Rightarrow> ret ()
         | Some view \<Rightarrow>
             bindO (lift (get_response env view m)) (\<lambda>response.
             let kw = [(''chat_id'', user_id (msg_user m)), (''text'', response),
                       (''parser_mode'', JStr ''markdown'')]
             in bindO (call_api eng ''send_message'' kw) (\<lambda>_.
                lift (post_outcome env (Post (make_url (api eng) ''send_message'') kw))))))"



section \<open>The polling loop\<close>

text \<open>
  \<^verbatim>\<open>
  async def polling(self, last_update=None):
      payload = {}
      if last_update:
          payload['offset'] = last_update + 1
      response = await self.api.get_updates(**payload)
      updates = await response.json()
      if len(updates.get('result', [])):
          last_update = updates['result'][-1]['update_id']
      tasks = [self.message_handler(msg) for msg in updates['result']]
      await asyncio.gather(*tasks)
      asyncio.ensure_future(self.polling(last_update))
  \<close>
  \<^verbatim>\<open>last_update\<close> is \<^verbatim>\<open>None\<close> or whatever the last update had as its \<^verbatim>\<open>update_id\<close>, so
  it is a JSON value too. The Python operations applied to it and to the reply:
\<close>

text \<open>\<^verbatim>\<open>x + 1\<close>; a \<^verbatim>\<open>bool\<close> counts as 0 or 1 (the rounding of floats is not modelled).\<close>

fun py_add1 :: "json \<Rightarrow> error + json" where
  "py_add1 (JInt n) = Inr (JInt (n + 1))"
| "py_add1 (JBool b) = Inr (JInt ((if b then 1 else 0) + 1))"
| "py_add1 (JFloat x) = Inr (JFloat (x + 1))"
| "py_add1 _ = Inl TypeError"

text \<open>\<^verbatim>\<open>len(x)\<close>.\<close>

fun py_len :: "json \<Rightarrow> error + nat" where
  "py_len (JStr s) = Inr (length s)"
| "py_len (JArr xs) = Inr (length xs)"
| "py_len (JObj kvs) = Inr (length (remdups (map fst kvs)))"
| "py_len _ = Inl TypeError"

text \<open>\<^verbatim>\<open>x[-1]\<close>; a dict with string keys has no key \<^verbatim>\<open>-1\<close>.\<close>

fun py_last :: "json \<Rightarrow> error + json" where
  "py_last (JArr xs) = (if xs = [] then Inl IndexError else Inr (last xs))"
| "py_last (JStr s) = (if s = [] then Inl IndexError else Inr (JStr [last s]))"
| "py_last (JObj kvs) = Inl KeyError"
| "py_last _ = Inl TypeError"

text \<open>\<^verbatim>\<open>for msg in x\<close>: the elements of a list, the characters of a string, the keys of a dict.\<close>

fun py_iter :: "json \<Rightarrow> error + json list" where
  "py_iter (JArr xs) = Inr xs"
| "py_iter (JStr s) = Inr (map (\<lambda>c. JStr [c]) s)"
| "py_iter (JObj kvs) = Inr (map JStr (remdups (map fst kvs)))"
| "py_iter _ = Inl TypeError"

text \<open>The keyword arguments of the \<^verbatim>\<open>get_updates\<close> call.\<close>

definition polling_payload :: "json \<Rightarrow> error + kwargs" where
  "polling_payload last_update =
     (if truthy last_update
      then bindE (py_add1 last_update) (\<lambda>offset. Inr [(''offset'', offset)])
      else Inr [])"

text \<open>The value of \<^verbatim>\<open>last_update\<close> after the reply has been read.\<close>

definition next_last_update :: "json \<Rightarrow> json \<Rightarrow> error + json" where
  "next_last_update updates last_update =
     bindE (py_get_default updates ''result'' (JArr [])) (\<lambda>r.
     bindE (py_len r) (\<lambda>n.
     if n \<noteq> 0
     then bindE (py_item updates ''result'') (\<lambda>res.
          bindE (py_last res) (\<lambda>u.
          py_item u ''update_id''))
     else Inr last_update))"

text \<open>The updates the handlers are made for: \<^verbatim>\<open>[... for msg in updates['result']]\<close>.\<close>

definition batch :: "json \<Rightarrow> error + json list" where
  "batch updates = bindE (py_item updates ''result'') py_iter"

text \<open>
  \<^verbatim>\<open>asyncio.gather\<close> runs the handlers of a batch concurrently on one thread: their events
  interleave, each handler's own events keeping their order. Which handler moves next is
  the event loop's choice; it is given as a schedule, a list of handler indices. A choice
  that names no handler with an event left is skipped, and when the schedule is used up
  the handlers that are left run one after the other. Every interleaving is the result of
  some schedule.
\<close>

fun merge :: "nat list \<Rightarrow> 'a list list \<Rightarrow> 'a list" where
  "merge [] qs = concat qs"
| "merge (c # cs) qs =
     (if c < length qs
      then (case qs ! c of
              [] \<Rightarrow> merge cs qs
            | x # xs \<Rightarrow> x # merge cs (qs[c := xs]))
      else merge cs qs)"

text \<open>
  One iteration. \<^verbatim>\<open>gather\<close> returns when every handler has returned; the first exception
  of a handler is raised in \<^verbatim>\<open>polling\<close> instead, while the other handlers run on. The
  exception of an iteration reaches no caller (the coroutine runs as a task of its own),
  so the result is the events and, when the next iteration is scheduled, the
  \<^verbatim>\<open>last_update\<close> it is given.
\<close>

definition polling_step ::
  "'v resolver \<Rightarrow> engine \<Rightarrow> json \<Rightarrow> error + json \<Rightarrow> nat list \<Rightarrow> event list \<times> json option" where
  "polling_step env eng last_update reply sched =
     (case polling_payload last_update of
        Inl e \<Rightarrow> ([], None)
      | Inr payload \<Rightarrow>
          (case call_api eng ''get_updates'' payload of
             (t, Inl e) \<Rightarrow> (t, None)
           | (t, Inr _) \<Rightarrow>
               (case bindE reply (\<lambda>updates.
                     bindE (next_last_update updates last_update) (\<lambda>lu.
                     bindE (batch updates) (\<lambda>msgs. Inr (lu, msgs)))) of
                  Inl e \<Rightarrow> (t, None)
                | Inr (lu, msgs) \<Rightarrow>
                    (let hs = map (message_handler env eng) msgs
                     in (t @ merge sched (map fst hs),
                         if list_all (\<lambda>h. snd h = Inr ()) hs then Some lu else None)))))"

text \<open>
  The loop has no end of its own: it runs as long as the remote API answers. A run is
  driven by the replies to its \<^verbatim>\<open>get_updates\<close> calls, each with the schedule of its batch;
  after the last reply given, the next call has been posted and is waiting.
\<close>

fun polling ::
  "'v resolver \<Rightarrow> engine \<Rightarrow> json \<Rightarrow> ((error + json) \<times> nat list) list \<Rightarrow> event list" where
  "polling env eng last_update [] =
     (case polling_payload last_update of
        Inl e \<Rightarrow> []
      | Inr payload \<Rightarrow> fst (call_api eng ''get_updates'' payload))"
| "polling env eng last_update ((reply, sched) # rest) =
     (case polling_step env eng last_update reply sched of
        (t, None) \<Rightarrow> t
      | (t, Some lu) \<Rightarrow> t @ polling env eng lu rest)"

text \<open>The keyword arguments of the \<^verbatim>\<open>get_updates\<close> calls of a run, in order.\<close>

fun get_updates_calls :: "engine \<Rightarrow> event list \<Rightarrow> kwargs list" where
  "get_updates_calls eng [] = []"
| "get_updates_calls eng (Call (Post url kw) # t) =
     (if url = make_url (api eng) ''get_updates'' then kw # get_updates_calls eng t
      else get_updates_calls eng t)"
| "get_updates_calls eng (LogDebug s # t) = get_updates_calls eng t"
| "get_updates_calls eng (LogInfo n u # t) = get_updates_calls eng t"

text \<open>The requests among the events.\<close>

fun requests :: "event list \<Rightarrow> http_call list" where
  "requests [] = []"
| "requests (Call c # t) = c # requests t"
| "requests (LogDebug s # t) = requests t"
| "requests (LogInfo n u # t) = requests t"

section \<open>Properties\<close>

subsection \<open>Auxiliary facts\<close>

lemma bindE_simps [simp]:
  "bindE (Inl e) f = Inl e"
  "bindE (Inr x) f = f x"
  by (simp_all add: bindE_def)

lemma bindO_simps [simp]:
  "bindO (t, Inl e) f = (t, Inl e)"
  "bindO (t, Inr x) f = (t @ fst (f x), snd (f x))"
  by (simp_all add: bindO_def split: prod.splits)

lemma bindO_pair:
  "bindO (t, r) f = (case r of Inl e \<Rightarrow> (t, Inl e) | Inr x \<Rightarrow> (t @ fst (f x), snd (f x)))"
  by (cases r) simp_all

lemma outcome_simps [simp]:
  "ret x = ([], Inr x)"
  "raise e = ([], Inl e)"
  "emit ev = ([ev], Inr ())"
  "lift r = ([], r)"
  by (simp_all add: ret_def raise_def emit_def lift_def)

lemma mixed_case_delete_webhook: "mixed_case ''delete_webhook'' = ''deleteWebhook''"
  by code_simp

lemma mixed_case_send_message: "mixed_case ''send_message'' = ''sendMessage''"
  by code_simp

lemma mixed_case_set_webhook: "mixed_case ''set_webhook'' = ''setWebhook''"
  by code_simp

lemma mixed_case_get_updates: "mixed_case ''get_updates'' = ''getUpdates''"
  by code_simp

lemmas mixed_case_methods =
  mixed_case_delete_webhook mixed_case_send_message mixed_case_set_webhook mixed_case_get_updates

lemma make_url_unfold:
  "make_url p name = api_url @ ''/bot'' @ token p @ ''/'' @ mixed_case name"
  by (simp add: make_url_def)

subsection \<open>The proxy\<close>

text \<open>
  Claim C4. For every operation name of the allow-list (\<^verbatim>\<open>delete_webhook\<close>, \<^verbatim>\<open>send_message\<close>,
  \<^verbatim>\<open>set_webhook\<close>, \<^verbatim>\<open>get_updates\<close>) the URL of the remote call is the base URL, \<^verbatim>\<open>/bot\<close>, the
  token, \<^verbatim>\<open>/\<close> and the converted name: the name is split at the underscores, the first
  segment is lower-cased, the others are title-cased and all are concatenated. The request
  posted for the operation goes to that URL. The four names become \<^verbatim>\<open>deleteWebhook\<close>,
  \<^verbatim>\<open>sendMessage\<close>, \<^verbatim>\<open>setWebhook\<close> and \<^verbatim>\<open>getUpdates\<close>.
\<close>

theorem make_url_allow_list:
  "name \<in> set methods \<Longrightarrow>
     make_url p name =
       api_url @ ''/bot'' @ token p @ ''/'' @
         lower (hd (split_on CHR ''_'' name)) @ concat (map title (tl (split_on CHR ''_'' name)))
     \<and> api_request p name kw = ([Post (make_url p name) kw], Inr ())
     \<and> make_url p ''delete_webhook'' = api_url @ ''/bot'' @ token p @ ''/deleteWebhook''
     \<and> make_url p ''send_message'' = api_url @ ''/bot'' @ token p @ ''/sendMessage''
     \<and> make_url p ''set_webhook'' = api_url @ ''/bot'' @ token p @ ''/setWebhook''
     \<and> make_url p ''get_updates'' = api_url @ ''/bot'' @ token p @ ''/getUpdates''"
proof -
  assume allowed: "name \<in> set methods"
  have conv: "make_url p name =
       api_url @ ''/bot'' @ token p @ ''/'' @
         lower (hd (split_on CHR ''_'' name)) @ concat (map title (tl (split_on CHR ''_'' name)))"
    by (simp add: make_url_unfold mixed_case_def Let_def)
  have req: "api_request p name kw = ([Post (make_url p name) kw], Inr ())"
    using allowed by (simp add: api_request_def getattr_api_def)
  have names:
    "make_url p ''delete_webhook'' = api_url @ ''/bot'' @ token p @ ''/deleteWebhook''"
    "make_url p ''send_message'' = api_url @ ''/bot'' @ token p @ ''/sendMessage''"
    "make_url p ''set_webhook'' = api_url @ ''/bot'' @ token p @ ''/setWebhook''"
    "make_url p ''get_updates'' = api_url @ ''/bot'' @ token p @ ''/getUpdates''"
    by (simp_all add: make_url_unfold mixed_case_methods)
  from conv req names show ?thesis by blast
qed

theorem make_url_allow_list_witness:
  "''get_updates'' \<in> set methods
   \<and> api_request \<lparr>token = ''123:ABC''\<rparr> ''get_updates'' [] =
       ([Post ''https://api.telegram.org/bot123:ABC/getUpdates'' []], Inr ())"
proof -
  have allowed: "''get_updates'' \<in> set methods"
    by (simp add: methods_def)
  from make_url_allow_list [OF allowed, of "\<lparr>token = ''123:ABC''\<rparr>" "[]"]
  have "api_request \<lparr>token = ''123:ABC''\<rparr> ''get_updates'' [] =
          ([Post (make_url \<lparr>token = ''123:ABC''\<rparr> ''get_updates'') []], Inr ())"
    and "make_url \<lparr>token = ''123:ABC''\<rparr> ''get_updates'' =
          api_url @ ''/bot'' @ token \<lparr>token = ''123:ABC''\<rparr> @ ''/getUpdates''"
    by blast+
  with allowed show ?thesis by (simp add: api_url_def)
qed

lemma operations_reach_getattr:
  "name \<in> set methods \<Longrightarrow> \<not> normal_lookup object_attrs name"
  by (auto simp add: methods_def normal_lookup_def instance_attrs_def class_attrs_def
        is_dunder_def)

lemma getattribute_operation:
  "name \<in> set methods \<Longrightarrow>
     getattribute object_attrs p name = Inr (Operation (\<lambda>kwargs. Post (make_url p name) kwargs))"
  by (simp add: getattribute_def operations_reach_getattr getattr_api_def)




subsection \<open>Translation of an update\<close>

lemma build_message_no_key:
  "map_of kvs ''message'' = None \<Longrightarrow> build_message (JObj kvs) = Inr None"
  by (simp add: build_message_def)

lemma telegram_user_init_dict:
  "map_of s ''id'' = Some uid \<Longrightarrow> map_of s ''first_name'' = Some fn \<Longrightarrow>
   telegram_user_init (JObj s) =
     Inr \<lparr>user_id = uid, first_name = fn,
          last_name = (case map_of s ''last_name'' of None \<Rightarrow> JNull | Some v \<Rightarrow> v),
          username = (case map_of s ''username'' of None \<Rightarrow> JNull | Some v \<Rightarrow> v),
          language = (case map_of s ''language_code'' of None \<Rightarrow> JNull | Some v \<Rightarrow> v)\<rparr>"
  by (simp add: telegram_user_init_def split: option.splits)

lemma telegram_user_init_missing:
  "map_of s ''id'' = None \<or> map_of s ''first_name'' = None \<Longrightarrow>
     telegram_user_init (JObj s) = Inl KeyError"
  by (auto simp add: telegram_user_init_def split: option.splits)

text \<open>
  Claim C3, as amended. An update (a JSON object) with no \<^verbatim>\<open>message\<close> key translates to
  \<^verbatim>\<open>None\<close>. An update whose \<^verbatim>\<open>message\<close> is an object with \<^verbatim>\<open>message_id\<close>, \<^verbatim>\<open>text\<close>, \<^verbatim>\<open>date\<close>
  and \<^verbatim>\<open>from\<close>, where \<^verbatim>\<open>from\<close> is an object with \<^verbatim>\<open>id\<close> and \<^verbatim>\<open>first_name\<close>, translates to the
  message whose id, text and timestamp are the payload's \<^verbatim>\<open>message_id\<close>, \<^verbatim>\<open>text\<close> and
  \<^verbatim>\<open>date\<close>, whose user has the \<^verbatim>\<open>id\<close> and \<^verbatim>\<open>first_name\<close> of \<^verbatim>\<open>from\<close> and its \<^verbatim>\<open>last_name\<close>,
  \<^verbatim>\<open>username\<close> and \<^verbatim>\<open>language_code\<close> (\<^verbatim>\<open>None\<close> where \<^verbatim>\<open>from\<close> has none), whose platform is
  \<^verbatim>\<open>telegram\<close> and whose raw payload is the whole update. When the \<^verbatim>\<open>from\<close> object of such a
  message has no \<^verbatim>\<open>id\<close> or no \<^verbatim>\<open>first_name\<close>, no message is built: the translation raises
  \<^verbatim>\<open>KeyError\<close>.
\<close>

theorem build_message_fields:
  "(map_of kvs ''message'' = None \<longrightarrow> build_message (JObj kvs) = Inr None)
   \<and> (map_of kvs ''message'' = Some (JObj md)
        \<and> map_of md ''message_id'' = Some i \<and> map_of md ''text'' = Some t
        \<and> map_of md ''date'' = Some d \<and> map_of md ''from'' = Some (JObj s)
        \<and> map_of s ''id'' = Some uid \<and> map_of s ''first_name'' = Some fn
      \<longrightarrow> build_message (JObj kvs) =
            Inr (Some \<lparr>msg_id = i, msg_platform = ''telegram'', msg_text = t,
                       msg_user =
                         \<lparr>user_id = uid, first_name = fn,
                          last_name = (case map_of s ''last_name'' of None \<Rightarrow> JNull | Some v \<Rightarrow> v),
                          username = (case map_of s ''username'' of None \<Rightarrow> JNull | Some v \<Rightarrow> v),
                          language = (case map_of s ''language_code'' of None \<Rightarrow> JNull | Some v \<Rightarrow> v)\<rparr>,
                       msg_timestamp = d, msg_raw = JObj kvs\<rparr>))
   \<and> (map_of kvs ''message'' = Some (JObj md)
        \<and> map_of md ''message_id'' = Some i \<and> map_of md ''text'' = Some t
        \<and> map_of md ''date'' = Some d \<and> map_of md ''from'' = Some (JObj s)
        \<and> (map_of s ''id'' = None \<or> map_of s ''first_name'' = None)
      \<longrightarrow> build_message (JObj kvs) = Inl KeyError)"
proof (intro conjI impI)
  assume "map_of kvs ''message'' = None"
  then show "build_message (JObj kvs) = Inr None"
    by (rule build_message_no_key)
next
  assume h: "map_of kvs ''message'' = Some (JObj md)
        \<and> map_of md ''message_id'' = Some i \<and> map_of md ''text'' = Some t
        \<and> map_of md ''date'' = Some d \<and> map_of md ''from'' = Some (JObj s)
        \<and> map_of s ''id'' = Some uid \<and> map_of s ''first_name'' = Some fn"
  then have "md \<noteq> []" by auto
  with h show "build_message (JObj kvs) =
            Inr (Some \<lparr>msg_id = i, msg_platform = ''telegram'', msg_text = t,
                       msg_user =
                         \<lparr>user_id = uid, first_name = fn,
                          last_name = (case map_of s ''last_name'' of None \<Rightarrow> JNull | Some v \<Rightarrow> v),
                          username = (case map_of s ''username'' of None \<Rightarrow> JNull | Some v \<Rightarrow> v),
                          language = (case map_of s ''language_code'' of None \<Rightarrow> JNull | Some v \<Rightarrow> v)\<rparr>,
                       msg_timestamp = d, msg_raw = JObj kvs\<rparr>)"
    by (simp add: build_message_def telegram_user_init_dict platform_def)
next
  assume h: "map_of kvs ''message'' = Some (JObj md)
        \<and> map_of md ''message_id'' = Some i \<and> map_of md ''text'' = Some t
        \<and> map_of md ''date'' = Some d \<and> map_of md ''from'' = Some (JObj s)
        \<and> (map_of s ''id'' = None \<or> map_of s ''first_name'' = None)"
  then have "md \<noteq> []" by auto
  moreover from h have "map_of s ''id'' = None \<or> map_of s ''first_name'' = None"
    by simp
  then have "telegram_user_init (JObj s) = Inl KeyError"
    by (rule telegram_user_init_missing)
  ultimately show "build_message (JObj kvs) = Inl KeyError"
    using h by (simp add: build_message_def)
qed

theorem build_message_fields_witness:
  "build_message (JObj [(''edited_message'', JObj [(''message_id'', JInt 5)])]) = Inr None
   \<and> build_message
        (JObj [(''message'',
                JObj [(''message_id'', JInt 5), (''text'', JStr ''hi''), (''date'', JInt 1000),
                      (''from'', JObj [(''id'', JInt 42), (''first_name'', JStr ''A'')])])]) =
       Inr (Some \<lparr>msg_id = JInt 5, msg_platform = ''telegram'', msg_text = JStr ''hi'',
                  msg_user = \<lparr>user_id = JInt 42, first_name = JStr ''A'', last_name = JNull,
                              username = JNull, language = JNull\<rparr>,
                  msg_timestamp = JInt 1000,
                  msg_raw =
                    JObj [(''message'',
                           JObj [(''message_id'', JInt 5), (''text'', JStr ''hi''),
                                 (''date'', JInt 1000),
                                 (''from'', JObj [(''id'', JInt 42), (''first_name'', JStr ''A'')])])]\<rparr>)
   \<and> build_message
        (JObj [(''message'',
                JObj [(''message_id'', JInt 5), (''text'', JStr ''hi''), (''date'', JInt 1000),
                      (''from'', JObj [(''first_name'', JStr ''A'')])])]) = Inl KeyError"
  using build_message_fields [of "[(''edited_message'', JObj [(''message_id'', JInt 5)])]"]
    build_message_fields
      [of "[(''message'',
                JObj [(''message_id'', JInt 5), (''text'', JStr ''hi''), (''date'', JInt 1000),
                      (''from'', JObj [(''first_name'', JStr ''A'')])])]"
          "[(''message_id'', JInt 5), (''text'', JStr ''hi''), (''date'', JInt 1000),
                      (''from'', JObj [(''first_name'', JStr ''A'')])]"
          "JInt 5" "JStr ''hi''" "JInt 1000" "[(''first_name'', JStr ''A'')]"
          "JInt 42" "JStr ''A''"]
    build_message_fields
      [of "[(''message'',
                JObj [(''message_id'', JInt 5), (''text'', JStr ''hi''), (''date'', JInt 1000),
                      (''from'', JObj [(''id'', JInt 42), (''first_name'', JStr ''A'')])])]"
          "[(''message_id'', JInt 5), (''text'', JStr ''hi''), (''date'', JInt 1000),
                      (''from'', JObj [(''id'', JInt 42), (''first_name'', JStr ''A'')])]"
          "JInt 5" "JStr ''hi''" "JInt 1000" "[(''id'', JInt 42), (''first_name'', JStr ''A'')]"
          "JInt 42" "JStr ''A''"]
  by simp

text \<open>
  The claim C3 as it is written asks of \<^verbatim>\<open>from\<close> only that it is there. The user is built
  with \<^verbatim>\<open>sender['id']\<close> and \<^verbatim>\<open>sender['first_name']\<close>: an update whose \<^verbatim>\<open>message\<close> has all four
  keys and whose \<^verbatim>\<open>from\<close> has no \<^verbatim>\<open>first_name\<close> yields no message, it raises \<^verbatim>\<open>KeyError\<close>.
\<close>

theorem build_message_from_without_first_name:
  "build_message
     (JObj [(''message'',
             JObj [(''message_id'', JInt 5), (''text'', JStr ''hi''), (''date'', JInt 1000),
                   (''from'', JObj [(''id'', JInt 42)])])]) = Inl KeyError"
  by (simp add: build_message_def telegram_user_init_def)

text \<open>
  Claim C10. Whether a message is there is decided by the truth value of
  \<^verbatim>\<open>data.get('message')\<close>: an update whose \<^verbatim>\<open>message\<close> key holds a false value (\<^verbatim>\<open>None\<close>, an
  empty object, \<^verbatim>\<open>false\<close>, zero, an empty string or list) translates to \<^verbatim>\<open>None\<close>, as an
  update with no \<^verbatim>\<open>message\<close> key does, and no message is built.
\<close>

theorem build_message_falsy:
  "map_of kvs ''message'' = Some v \<Longrightarrow> \<not> truthy v \<Longrightarrow>
     build_message (JObj kvs) = Inr None
     \<and> build_message (JObj kvs) = build_message (JObj [])"
  by (simp add: build_message_def)

theorem build_message_falsy_witness:
  "build_message (JObj [(''update_id'', JInt 7), (''message'', JObj [])]) = Inr None
   \<and> build_message (JObj [(''update_id'', JInt 7), (''message'', JNull)]) = Inr None"
  using build_message_falsy [of "[(''update_id'', JInt 7), (''message'', JObj [])]" "JObj []"]
    build_message_falsy [of "[(''update_id'', JInt 7), (''message'', JNull)]" "JNull"]
  by simp

subsection \<open>The dispatch pipeline\<close>

lemma message_handler_no_message:
  "build_message data = Inr None \<Longrightarrow> message_handler env eng data = ([], Inl AttributeError)"
  by (simp add: message_handler_def)

text \<open>
  Claim C2 says that an update with no message goes through \<^verbatim>\<open>message_handler\<close> silently.
  It does not: \<^verbatim>\<open>build_message\<close> returns \<^verbatim>\<open>None\<close>, and the next line reads \<^verbatim>\<open>message.user\<close>.
  For an \<^verbatim>\<open>edited_message\<close> update the handler raises \<^verbatim>\<open>AttributeError\<close>; it posts and logs
  nothing.
\<close>

theorem message_handler_edited_message:
  "build_message
     (JObj [(''update_id'', JInt 7),
            (''edited_message'', JObj [(''message_id'', JInt 5), (''text'', JStr ''hi'')])]) =
     Inr None
   \<and> message_handler env eng
        (JObj [(''update_id'', JInt 7),
               (''edited_message'', JObj [(''message_id'', JInt 5), (''text'', JStr ''hi'')])]) =
       ([], Inl AttributeError)"
  by (simp add: message_handler_def build_message_def)

subsection \<open>Configuration\<close>

lemma call_api_allowed:
  "name \<in> set methods \<Longrightarrow>
     call_api eng name kw = ([Call (Post (make_url (api eng) name) kw)], Inr ())"
  by (simp add: call_api_def api_request_def getattr_api_def)

lemma set_webhook_allowed: "''set_webhook'' \<in> set methods"
  by (simp add: methods_def)

lemma requests_append [simp]: "requests (t @ t') = requests t @ requests t'"
  by (induction t rule: requests.induct) simp_all

lemma configure_webhook_falsy:
  "HOSTNAME st = Inr h \<Longrightarrow> \<not> truthy h \<Longrightarrow>
     configure_webhook st eng reply = ([], Inl (ImproperlyConfigured ''Missing HOSTNAME setting''))"
  by (simp add: configure_webhook_def)

lemma configure_webhook_raises:
  "HOSTNAME st = Inl e \<Longrightarrow> configure_webhook st eng reply = ([], Inl e)"
  by (simp add: configure_webhook_def)

lemma configure_webhook_truthy:
  "HOSTNAME st = Inr h \<Longrightarrow> truthy h \<Longrightarrow>
     configure_webhook st eng reply =
       (case reply of
          Inl e \<Rightarrow> ([Call (Post (make_url (api eng) ''set_webhook'') [(''url'', h)])], Inl e)
        | Inr response \<Rightarrow>
            (case py_item response ''ok'' of
               Inl e \<Rightarrow> ([Call (Post (make_url (api eng) ''set_webhook'') [(''url'', h)])], Inl e)
             | Inr ok \<Rightarrow>
                 (Call (Post (make_url (api eng) ''set_webhook'') [(''url'', h)]) #
                    (if truthy ok then [LogDebug (''['' @ engine_name eng @ ''] Webhook mode set'')]
                     else []),
                  Inr (eng\<lparr>routes := routes eng @ [(''/'', Webhook)]\<rparr>))))"
  by (simp add: configure_webhook_def call_api_allowed set_webhook_allowed bindO_pair
        split: sum.splits)

lemma configure_webhook_requests:
  "HOSTNAME st = Inr h \<Longrightarrow> truthy h \<Longrightarrow>
     requests (fst (configure_webhook st eng reply)) =
       [Post (make_url (api eng) ''set_webhook'') [(''url'', h)]]"
  by (simp add: configure_webhook_truthy split: sum.splits)








lemma configure_webhook_api:
  "configure_webhook st eng reply = (t, Inr eng') \<Longrightarrow> api eng' = api eng"
proof -
  assume run: "configure_webhook st eng reply = (t, Inr eng')"
  then obtain h where h: "HOSTNAME st = Inr h" "truthy h"
    by (cases "HOSTNAME st") (auto simp add: configure_webhook_def split: if_splits)
  from run show ?thesis
    by (auto simp add: configure_webhook_truthy [OF h] split: sum.splits)
qed

lemma configure_webhook_requests_any:
  "requests (fst (configure_webhook st eng reply)) =
     (case HOSTNAME st of
        Inl e \<Rightarrow> []
      | Inr h \<Rightarrow> if truthy h then [Post (make_url (api eng) ''set_webhook'') [(''url'', h)]]
                 else [])"
proof (cases "HOSTNAME st")
  case (Inl e)
  then show ?thesis by (simp add: configure_webhook_raises)
next
  case (Inr h)
  then show ?thesis
    by (cases "truthy h") (simp_all add: configure_webhook_requests configure_webhook_falsy)
qed

text \<open>
  Claim C9. The webhook configuration run twice with the same hostname setting posts the
  same request each time: one \<^verbatim>\<open>set_webhook\<close> call whose \<^verbatim>\<open>url\<close> argument is the hostname,
  whatever the remote API answered the first time. The second run starts from the engine
  as the first run left it (unchanged when the first run raised); what the first run
  added to the engine has no part in the request.
\<close>

theorem configure_webhook_twice:
  "configure_webhook st eng r1 = (t1, res1) \<Longrightarrow>
     requests (fst (configure_webhook st (case res1 of Inl e \<Rightarrow> eng | Inr eng1 \<Rightarrow> eng1) r2)) =
       requests t1
     \<and> (HOSTNAME st = Inr h \<and> truthy h \<longrightarrow>
          requests t1 = [Post (make_url (api eng) ''set_webhook'') [(''url'', h)]])"
proof -
  assume run1: "configure_webhook st eng r1 = (t1, res1)"
  have same: "api (case res1 of Inl e \<Rightarrow> eng | Inr eng1 \<Rightarrow> eng1) = api eng"
  proof (cases res1)
    case (Inl e)
    then show ?thesis by simp
  next
    case (Inr eng1)
    with run1 have "api eng1 = api eng" by (simp add: configure_webhook_api)
    with Inr show ?thesis by simp
  qed
  from run1 have first: "requests t1 = requests (fst (configure_webhook st eng r1))"
    by simp
  have "requests (fst (configure_webhook st (case res1 of Inl e \<Rightarrow> eng | Inr eng1 \<Rightarrow> eng1) r2)) =
       requests t1"
    unfolding first configure_webhook_requests_any same ..
  moreover have "HOSTNAME st = Inr h \<and> truthy h \<longrightarrow>
          requests t1 = [Post (make_url (api eng) ''set_webhook'') [(''url'', h)]]"
    unfolding first by (simp add: configure_webhook_requests)
  ultimately show ?thesis by blast
qed

theorem configure_webhook_twice_witness:
  "configure_webhook \<lparr>HOSTNAME = Inr (JStr ''https://bot.example.org'')\<rparr>
      \<lparr>api = \<lparr>token = ''123:ABC''\<rparr>, engine_name = ''telegram'', mode = ''webhook'', tasks = [], routes = []\<rparr>
      (Inr (JObj [(''ok'', JBool True)])) =
     ([Call (Post ''https://api.telegram.org/bot123:ABC/setWebhook'' [(''url'', JStr ''https://bot.example.org'')]),
       LogDebug ''[telegram] Webhook mode set''],
      Inr \<lparr>api = \<lparr>token = ''123:ABC''\<rparr>, engine_name = ''telegram'', mode = ''webhook'', tasks = [],
           routes = [(''/'', Webhook)]\<rparr>)
   \<and> requests (fst (configure_webhook \<lparr>HOSTNAME = Inr (JStr ''https://bot.example.org'')\<rparr>
        \<lparr>api = \<lparr>token = ''123:ABC''\<rparr>, engine_name = ''telegram'', mode = ''webhook'', tasks = [],
           routes = [(''/'', Webhook)]\<rparr>
        (Inr (JObj [(''ok'', JBool False)])))) =
     [Post ''https://api.telegram.org/bot123:ABC/setWebhook'' [(''url'', JStr ''https://bot.example.org'')]]"
proof -
  have run1: "configure_webhook \<lparr>HOSTNAME = Inr (JStr ''https://bot.example.org'')\<rparr>
      \<lparr>api = \<lparr>token = ''123:ABC''\<rparr>, engine_name = ''telegram'', mode = ''webhook'', tasks = [], routes = []\<rparr>
      (Inr (JObj [(''ok'', JBool True)])) =
     ([Call (Post ''https://api.telegram.org/bot123:ABC/setWebhook'' [(''url'', JStr ''https://bot.example.org'')]),
       LogDebug ''[telegram] Webhook mode set''],
      Inr \<lparr>api = \<lparr>token = ''123:ABC''\<rparr>, engine_name = ''telegram'', mode = ''webhook'', tasks = [],
           routes = [(''/'', Webhook)]\<rparr>)"
    by (simp add: configure_webhook_def call_api_allowed set_webhook_allowed make_url_unfold
          mixed_case_methods api_url_def)
  from configure_webhook_twice [OF run1, of "Inr (JObj [(''ok'', JBool False)])" "JStr ''https://bot.example.org''"]
  have "requests (fst (configure_webhook \<lparr>HOSTNAME = Inr (JStr ''https://bot.example.org'')\<rparr>
        \<lparr>api = \<lparr>token = ''123:ABC''\<rparr>, engine_name = ''telegram'', mode = ''webhook'', tasks = [],
           routes = [(''/'', Webhook)]\<rparr>
        (Inr (JObj [(''ok'', JBool False)])))) =
     [Post ''https://api.telegram.org/bot123:ABC/setWebhook'' [(''url'', JStr ''https://bot.example.org'')]]"
    by simp
  with run1 show ?thesis by blast
qed

subsection \<open>The polling loop\<close>

lemma get_updates_allowed: "''get_updates'' \<in> set methods"
  by (simp add: methods_def)

lemma send_message_allowed: "''send_message'' \<in> set methods"
  by (simp add: methods_def)

lemma send_message_url_differs:
  "make_url p ''send_message'' \<noteq> make_url p ''get_updates''"
  by (simp add: make_url_unfold mixed_case_send_message mixed_case_get_updates)

lemma polling_payload_simps:
  "polling_payload JNull = Inr []"
  "polling_payload (JInt 0) = Inr []"
  "n \<noteq> 0 \<Longrightarrow> polling_payload (JInt n) = Inr [(''offset'', JInt (n + 1))]"
  by (simp_all add: polling_payload_def)



lemma message_handler_events:
  "ev \<in> set (fst (message_handler env eng u)) \<Longrightarrow>
     (\<exists>n usr. ev = LogInfo n usr)
     \<or> (\<exists>kw. ev = Call (Post (make_url (api eng) ''send_message'') kw))"
  by (auto simp add: message_handler_def call_api_allowed send_message_allowed bindO_pair Let_def
        split: sum.splits option.splits)

lemma no_get_updates_calls:
  "(\<And>ev kw. ev \<in> set t \<Longrightarrow> ev \<noteq> Call (Post (make_url (api eng) ''get_updates'') kw)) \<Longrightarrow>
     get_updates_calls eng t = []"
  by (induction eng t rule: get_updates_calls.induct) auto

lemma mset_concat_update:
  "c < length qs \<Longrightarrow> qs ! c = x # xs \<Longrightarrow>
     mset (concat qs) = add_mset x (mset (concat (qs[c := xs])))"
proof (induction qs arbitrary: c)
  case Nil
  then show ?case by simp
next
  case (Cons q qs)
  then show ?case by (cases c) simp_all
qed

lemma mset_merge: "mset (merge cs qs) = mset (concat qs)"
proof (induction cs arbitrary: qs)
  case Nil
  then show ?case by simp
next
  case (Cons c cs)
  show ?case
  proof (cases "c < length qs")
    case False
    then show ?thesis by (simp add: Cons.IH)
  next
    case True
    show ?thesis
    proof (cases "qs ! c")
      case Nil
      with True show ?thesis by (simp add: Cons.IH)
    next
      case (Cons x xs)
      with True show ?thesis by (simp add: Cons.IH mset_concat_update [OF True Cons])
    qed
  qed
qed

lemma handlers_post_no_get_updates:
  "get_updates_calls eng (merge sched (map (\<lambda>u. fst (message_handler env eng u)) msgs)) = []"
proof (rule no_get_updates_calls)
  fix ev kw
  assume "ev \<in> set (merge sched (map (\<lambda>u. fst (message_handler env eng u)) msgs))"
  then have "ev \<in># mset (merge sched (map (\<lambda>u. fst (message_handler env eng u)) msgs))"
    by simp
  then have "ev \<in> set (concat (map (\<lambda>u. fst (message_handler env eng u)) msgs))"
    unfolding mset_merge by simp
  then obtain u where "ev \<in> set (fst (message_handler env eng u))"
    by auto
  then have "(\<exists>n usr. ev = LogInfo n usr)
     \<or> (\<exists>kw. ev = Call (Post (make_url (api eng) ''send_message'') kw))"
    by (rule message_handler_events)
  then show "ev \<noteq> Call (Post (make_url (api eng) ''get_updates'') kw)"
    using send_message_url_differs [of "api eng"] by auto
qed

lemma polling_step_scheduled:
  "polling_step env eng lu reply sched = (t, Some lu') \<Longrightarrow>
     \<exists>payload updates msgs.
        polling_payload lu = Inr payload \<and> reply = Inr updates
        \<and> next_last_update updates lu = Inr lu' \<and> batch updates = Inr msgs
        \<and> t = Call (Post (make_url (api eng) ''get_updates'') payload)
                # merge sched (map (\<lambda>u. fst (message_handler env eng u)) msgs)
        \<and> list_all (\<lambda>u. snd (message_handler env eng u) = Inr ()) msgs"
  by (auto simp add: polling_step_def call_api_allowed get_updates_allowed bindE_def Let_def
        list_all_iff comp_def
        split: sum.splits prod.splits if_splits)

lemma polling_step_not_scheduled:
  "polling_step env eng lu reply sched = (t, None) \<Longrightarrow>
     length (get_updates_calls eng t) \<le> 1"
  by (auto simp add: polling_step_def call_api_allowed get_updates_allowed bindE_def Let_def
        handlers_post_no_get_updates comp_def
        split: sum.splits prod.splits if_splits)


lemma example_handler:
  "message_handler
     \<lparr>discover_view = \<lambda>m. Some (), get_response = \<lambda>v m. Inr (JStr ''pong''),
        post_outcome = \<lambda>c. Inr ()\<rparr>
     eng
     (JObj [(''update_id'', uid),
            (''message'',
             JObj [(''message_id'', i), (''text'', t), (''date'', d),
                   (''from'', JObj [(''id'', sender), (''first_name'', fn)])])]) =
     ([LogInfo (engine_name eng)
         \<lparr>user_id = sender, first_name = fn, last_name = JNull, username = JNull,
            language = JNull\<rparr>,
       Call (Post (make_url (api eng) ''send_message'')
               [(''chat_id'', sender), (''text'', JStr ''pong''),
                (''parser_mode'', JStr ''markdown'')])],
      Inr ())"
  by (simp add: message_handler_def build_message_def telegram_user_init_def
        call_api_allowed send_message_allowed Let_def)


lemma get_updates_url:
  "make_url \<lparr>token = ''123:ABC''\<rparr> ''get_updates'' =
     ''https://api.telegram.org/bot123:ABC/getUpdates''"
  by (simp add: make_url_unfold mixed_case_get_updates api_url_def)

lemma send_message_url:
  "make_url \<lparr>token = ''123:ABC''\<rparr> ''send_message'' =
     ''https://api.telegram.org/bot123:ABC/sendMessage''"
  by (simp add: make_url_unfold mixed_case_send_message api_url_def)



lemma polling_scheduled:
  "polling_step env eng lu reply sched = (t, Some lu') \<Longrightarrow>
     polling env eng lu ((reply, sched) # rest) = t @ polling env eng lu' rest"
  by simp

lemma polling_not_scheduled:
  "polling_step env eng lu reply sched = (t, None) \<Longrightarrow>
     polling env eng lu ((reply, sched) # rest) = t"
  by simp




text \<open>
  Claim C8. An iteration of the polling loop that schedules the next one has posted its
  \<^verbatim>\<open>get_updates\<close> call, read the reply, and run the handler of every update of the batch to
  its return: the events of the iteration after the call are the events of all the
  handlers (their \<^verbatim>\<open>send_message\<close> calls among them), interleaved in the order the
  schedule gives, and no \<^verbatim>\<open>get_updates\<close> call is among them. The events of the following
  iterations, which start with the next \<^verbatim>\<open>get_updates\<close> call, come after all of these. An
  iteration that does not run to its end (the reply cannot be read, or a handler raises)
  schedules nothing: the run ends with it, with no further \<^verbatim>\<open>get_updates\<close> call.
\<close>

theorem batch_before_next_call:
  "(polling_step env eng lu reply sched = (t, Some lu') \<longrightarrow>
      polling env eng lu ((reply, sched) # rest) = t @ polling env eng lu' rest
      \<and> (\<exists>payload updates msgs.
            reply = Inr updates \<and> batch updates = Inr msgs
            \<and> t = Call (Post (make_url (api eng) ''get_updates'') payload)
                    # merge sched (map (\<lambda>u. fst (message_handler env eng u)) msgs)
            \<and> list_all (\<lambda>u. snd (message_handler env eng u) = Inr ()) msgs
            \<and> mset (tl t) = mset (concat (map (\<lambda>u. fst (message_handler env eng u)) msgs))
            \<and> get_updates_calls eng (tl t) = []))
   \<and> (polling_step env eng lu reply sched = (t, None) \<longrightarrow>
        polling env eng lu ((reply, sched) # rest) = t
        \<and> length (get_updates_calls eng t) \<le> 1)"
proof (intro conjI impI)
  assume "polling_step env eng lu reply sched = (t, Some lu')"
  then show "polling env eng lu ((reply, sched) # rest) = t @ polling env eng lu' rest"
    by (rule polling_scheduled)
next
  assume "polling_step env eng lu reply sched = (t, Some lu')"
  then obtain payload updates msgs where step:
    "reply = Inr updates" "batch updates = Inr msgs"
    "t = Call (Post (make_url (api eng) ''get_updates'') payload)
           # merge sched (map (\<lambda>u. fst (message_handler env eng u)) msgs)"
    "list_all (\<lambda>u. snd (message_handler env eng u) = Inr ()) msgs"
    using polling_step_scheduled [of env eng lu reply sched t lu'] by blast
  from step(3) have "mset (tl t) = mset (concat (map (\<lambda>u. fst (message_handler env eng u)) msgs))"
    by (simp add: mset_merge)
  moreover from step(3) have "get_updates_calls eng (tl t) = []"
    by (simp add: handlers_post_no_get_updates)
  ultimately show "\<exists>payload updates msgs.
            reply = Inr updates \<and> batch updates = Inr msgs
            \<and> t = Call (Post (make_url (api eng) ''get_updates'') payload)
                    # merge sched (map (\<lambda>u. fst (message_handler env eng u)) msgs)
            \<and> list_all (\<lambda>u. snd (message_handler env eng u) = Inr ()) msgs
            \<and> mset (tl t) = mset (concat (map (\<lambda>u. fst (message_handler env eng u)) msgs))
            \<and> get_updates_calls eng (tl t) = []"
    using step by blast
next
  assume "polling_step env eng lu reply sched = (t, None)"
  then show "polling env eng lu ((reply, sched) # rest) = t"
    by (rule polling_not_scheduled)
next
  assume "polling_step env eng lu reply sched = (t, None)"
  then show "length (get_updates_calls eng t) \<le> 1"
    by (rule polling_step_not_scheduled)
qed

theorem batch_before_next_call_witness:
  "polling
     \<lparr>discover_view = \<lambda>m. Some (), get_response = \<lambda>v m. Inr (JStr ''pong''),
        post_outcome = \<lambda>c. Inr ()\<rparr>
     \<lparr>api = \<lparr>token = ''123:ABC''\<rparr>, engine_name = ''telegram'', mode = ''polling'',
        tasks = [Polling], routes = []\<rparr>
     JNull
     [(Inr (JObj [(''ok'', JBool True),
                  (''result'',
                   JArr [JObj [(''update_id'', JInt 7),
                               (''message'',
                                JObj [(''message_id'', JInt 5), (''text'', JStr ''hi''),
                                      (''date'', JInt 1000),
                                      (''from'', JObj [(''id'', JInt 42), (''first_name'', JStr ''A'')])])],
                         JObj [(''update_id'', JInt 8),
                               (''message'',
                                JObj [(''message_id'', JInt 6), (''text'', JStr ''ho''),
                                      (''date'', JInt 1001),
                                      (''from'', JObj [(''id'', JInt 43), (''first_name'', JStr ''B'')])])]])]),
       [1, 0, 1, 0])] =
     [Call (Post ''https://api.telegram.org/bot123:ABC/getUpdates'' []),
      LogInfo ''telegram''
        \<lparr>user_id = JInt 43, first_name = JStr ''B'', last_name = JNull, username = JNull,
           language = JNull\<rparr>,
      LogInfo ''telegram''
        \<lparr>user_id = JInt 42, first_name = JStr ''A'', last_name = JNull, username = JNull,
           language = JNull\<rparr>,
      Call (Post ''https://api.telegram.org/bot123:ABC/sendMessage''
              [(''chat_id'', JInt 43), (''text'', JStr ''pong''), (''parser_mode'', JStr ''markdown'')]),
      Call (Post ''https://api.telegram.org/bot123:ABC/sendMessage''
              [(''chat_id'', JInt 42), (''text'', JStr ''pong''), (''parser_mode'', JStr ''markdown'')]),
      Call (Post ''https://api.telegram.org/bot123:ABC/getUpdates'' [(''offset'', JInt 9)])]
   \<and> polling
     \<lparr>discover_view = \<lambda>m. Some (), get_response = \<lambda>v m. Inr (JStr ''pong''),
        post_outcome = \<lambda>c. Inr ()\<rparr>
     \<lparr>api = \<lparr>token = ''123:ABC''\<rparr>, engine_name = ''telegram'', mode = ''polling'',
        tasks = [Polling], routes = []\<rparr>
     JNull
     [(Inr (JObj [(''ok'', JBool True),
                  (''result'',
                   JArr [JObj [(''update_id'', JInt 7),
                               (''edited_message'',
                                JObj [(''message_id'', JInt 5), (''text'', JStr ''hi'')])]])]),
       []),
      (Inr (JObj [(''ok'', JBool True), (''result'', JArr [])]), [])] =
     [Call (Post ''https://api.telegram.org/bot123:ABC/getUpdates'' [])]"
proof -
  let ?env = "\<lparr>discover_view = \<lambda>m. Some (), get_response = \<lambda>v m. Inr (JStr ''pong''),
        post_outcome = \<lambda>c. Inr ()\<rparr> :: unit resolver"
  let ?eng = "\<lparr>api = \<lparr>token = ''123:ABC''\<rparr>, engine_name = ''telegram'', mode = ''polling'',
        tasks = [Polling], routes = []\<rparr>"
  let ?reply = "Inr (JObj [(''ok'', JBool True),
                  (''result'',
                   JArr [JObj [(''update_id'', JInt 7),
                               (''message'',
                                JObj [(''message_id'', JInt 5), (''text'', JStr ''hi''),
                                      (''date'', JInt 1000),
                                      (''from'', JObj [(''id'', JInt 42), (''first_name'', JStr ''A'')])])],
                         JObj [(''update_id'', JInt 8),
                               (''message'',
                                JObj [(''message_id'', JInt 6), (''text'', JStr ''ho''),
                                      (''date'', JInt 1001),
                                      (''from'', JObj [(''id'', JInt 43), (''first_name'', JStr ''B'')])])]])])
                :: error + json"
  let ?edited = "Inr (JObj [(''ok'', JBool True),
                  (''result'',
                   JArr [JObj [(''update_id'', JInt 7),
                               (''edited_message'',
                                JObj [(''message_id'', JInt 5), (''text'', JStr ''hi'')])]])])
                :: error + json"
  let ?t = "[Call (Post (make_url (api ?eng) ''get_updates'') []),
      LogInfo ''telegram''
        \<lparr>user_id = JInt 43, first_name = JStr ''B'', last_name = JNull, username = JNull,
           language = JNull\<rparr>,
      LogInfo ''telegram''
        \<lparr>user_id = JInt 42, first_name = JStr ''A'', last_name = JNull, username = JNull,
           language = JNull\<rparr>,
      Call (Post (make_url (api ?eng) ''send_message'')
              [(''chat_id'', JInt 43), (''text'', JStr ''pong''), (''parser_mode'', JStr ''markdown'')]),
      Call (Post (make_url (api ?eng) ''send_message'')
              [(''chat_id'', JInt 42), (''text'', JStr ''pong''), (''parser_mode'', JStr ''markdown'')])]"
  have step: "polling_step ?env ?eng JNull ?reply [1, 0, 1, 0] = (?t, Some (JInt 8))"
    by (simp add: polling_step_def polling_payload_simps call_api_allowed get_updates_allowed
          next_last_update_def batch_def example_handler)
  have "polling ?env ?eng JNull [(?reply, [1, 0, 1, 0])] = ?t @ polling ?env ?eng (JInt 8) []"
    using batch_before_next_call [of ?env ?eng JNull ?reply "[1, 0, 1, 0]" ?t "JInt 8" "[]"] step
    by blast
  moreover have "polling ?env ?eng (JInt 8) [] =
      [Call (Post (make_url (api ?eng) ''get_updates'') [(''offset'', JInt 9)])]"
    by (simp add: polling_payload_simps call_api_allowed get_updates_allowed)
  ultimately have run: "polling ?env ?eng JNull [(?reply, [1, 0, 1, 0])] =
      ?t @ [Call (Post (make_url (api ?eng) ''get_updates'') [(''offset'', JInt 9)])]"
    by simp
  have failed: "polling_step ?env ?eng JNull ?edited [] =
      ([Call (Post (make_url (api ?eng) ''get_updates'') [])], None)"
    by (simp add: polling_step_def polling_payload_simps call_api_allowed get_updates_allowed
          next_last_update_def batch_def message_handler_def build_message_def)
  have stop: "polling ?env ?eng JNull
        [(?edited, []), (Inr (JObj [(''ok'', JBool True), (''result'', JArr [])]), [])] =
      [Call (Post (make_url (api ?eng) ''get_updates'') [])]"
    using batch_before_next_call
      [of ?env ?eng JNull ?edited "[]" "[Call (Post (make_url (api ?eng) ''get_updates'') [])]" JNull
          "[(Inr (JObj [(''ok'', JBool True), (''result'', JArr [])]), [])]"]
      failed
    by blast
  from run stop show ?thesis
    by (simp add: get_updates_url send_message_url)
qed

end
